theory Spec2Isabelle
  imports Complex_Main
begin

unbundle bit_operations_syntax

section \<open>JavaScript values used by the models\<close>

text \<open>
  A JavaScript number is a real number, an infinity or NaN. Finite doubles are idealised
  as reals (no rounding, no overflow); the two signed zeros are not distinguished, every
  zero divisor below being the positive zero of a layout width or of a duration.
  Numbers that only pass through subtraction, comparison, clamping and multiplication by
  a constant stay finite and are modelled as \<open>real\<close> directly; \<open>jsnum\<close> is used where a
  division can leave the finite range.
\<close>

datatype jsnum = Fin real | PInf | NInf | NaN

datatype js_error = TypeError

fun js_div :: "real \<Rightarrow> real \<Rightarrow> jsnum" where
  "js_div a b =
     (if b \<noteq> 0 then Fin (a / b)
      else if a = 0 then NaN
      else if 0 < a then PInf else NInf)"

fun js_add :: "jsnum \<Rightarrow> jsnum \<Rightarrow> jsnum" where
  "js_add NaN _ = NaN"
| "js_add _ NaN = NaN"
| "js_add (Fin a) (Fin b) = Fin (a + b)"
| "js_add PInf NInf = NaN"
| "js_add NInf PInf = NaN"
| "js_add PInf _ = PInf"
| "js_add _ PInf = PInf"
| "js_add NInf _ = NInf"
| "js_add _ NInf = NInf"

fun js_neg :: "jsnum \<Rightarrow> jsnum" where
  "js_neg (Fin a) = Fin (- a)"
| "js_neg PInf = NInf"
| "js_neg NInf = PInf"
| "js_neg NaN = NaN"

definition js_sub :: "jsnum \<Rightarrow> jsnum \<Rightarrow> jsnum" where
  "js_sub a b = js_add a (js_neg b)"

text \<open>The sign of a number that is not NaN: \<open>-1\<close>, \<open>0\<close> or \<open>1\<close>.\<close>

fun js_sign :: "jsnum \<Rightarrow> int" where
  "js_sign (Fin a) = (if a < 0 then - 1 else if a = 0 then 0 else 1)"
| "js_sign PInf = 1"
| "js_sign NInf = - 1"
| "js_sign NaN = 0"

fun js_mul :: "jsnum \<Rightarrow> jsnum \<Rightarrow> jsnum" where
  "js_mul NaN _ = NaN"
| "js_mul _ NaN = NaN"
| "js_mul (Fin a) (Fin b) = Fin (a * b)"
| "js_mul a b =
     (if js_sign a * js_sign b = 0 then NaN
      else if 0 < js_sign a * js_sign b then PInf else NInf)"

text \<open>\<^verbatim>\<open>a < b\<close>: false as soon as one side is NaN.\<close>

fun js_lt :: "jsnum \<Rightarrow> jsnum \<Rightarrow> bool" where
  "js_lt NaN _ = False"
| "js_lt _ NaN = False"
| "js_lt (Fin a) (Fin b) = (a < b)"
| "js_lt NInf NInf = False"
| "js_lt NInf _ = True"
| "js_lt _ NInf = False"
| "js_lt PInf _ = False"
| "js_lt _ PInf = True"

text \<open>\<^verbatim>\<open>Math.min(a, b)\<close>: NaN as soon as one argument is NaN.\<close>

fun js_min :: "jsnum \<Rightarrow> jsnum \<Rightarrow> jsnum" where
  "js_min NaN _ = NaN"
| "js_min _ NaN = NaN"
| "js_min a b = (if js_lt b a then b else a)"

fun js_floor :: "jsnum \<Rightarrow> jsnum" where
  "js_floor (Fin a) = Fin (of_int \<lfloor>a\<rfloor>)"
| "js_floor a = a"

text \<open>\<^verbatim>\<open>a !== b\<close> on numbers: NaN differs from everything, itself included.\<close>

fun js_strict_neq :: "jsnum \<Rightarrow> jsnum \<Rightarrow> bool" where
  "js_strict_neq NaN _ = True"
| "js_strict_neq _ NaN = True"
| "js_strict_neq a b = (a \<noteq> b)"

fun js_finite :: "jsnum \<Rightarrow> bool" where
  "js_finite (Fin a) = True"
| "js_finite _ = False"

section \<open>ItemSliding: the sliding list item\<close>

text \<open>
  What the component does to its surroundings, in order: the classes it toggles on its
  own element (\<^verbatim>\<open>setElementClass\<close>), the \<^verbatim>\<open>transition\<close> and \<^verbatim>\<open>transform\<close> styles it sets
  on the item (\<open>None\<close> is the empty string, \<open>Some a\<close> is \<^verbatim>\<open>translate3d(a px,0,0)\<close>), and
  the \<^verbatim>\<open>ionDrag\<close> and \<^verbatim>\<open>ionSwipe\<close> events it emits.
\<close>

datatype sliding_effect =
    SetElementClass string bool
  | SetItemTransition string
  | SetItemTransform "real option"
  | IonDrag
  | IonSwipeRight
  | IonSwipeLeft

text \<open>
  The fields of \<^verbatim>\<open>ItemSliding\<close> (the leading underscore of the source dropped).
  \<open>state\<close> is the bit mask \<^verbatim>\<open>Disabled = 2, Enabled = 4, Right = 8, Left = 16,
  SwipeRight = 32, SwipeLeft = 64\<close>; \<open>sides\<close> is \<^verbatim>\<open>Left = 1, Right = 2, Both = 3\<close>.
  \<open>hasRightOptions\<close> and \<open>hasLeftOptions\<close> say whether \<^verbatim>\<open>_rightOptions\<close> and
  \<^verbatim>\<open>_leftOptions\<close> are defined, \<open>dragObservers\<close> is \<^verbatim>\<open>ionDrag.observers.length\<close>.

  The platform's timer and frame queue are part of the state: \<open>now\<close> is the clock in
  milliseconds, \<open>timer\<close> is the pending \<^verbatim>\<open>nativeTimeout\<close> given by the time at which it is
  due (\<open>None\<close> is \<^verbatim>\<open>null\<close>), and \<open>rafQueued\<close> counts the \<^verbatim>\<open>nativeRaf\<close> callbacks of
  \<^verbatim>\<open>calculateOptsWidth\<close> not yet run.
\<close>

record item_sliding =
  openAmount :: real
  startX :: real
  optsWidthRightSide :: real
  optsWidthLeftSide :: real
  timer :: "nat option"
  optsDirty :: bool
  state :: nat
  sides :: nat
  hasRightOptions :: bool
  hasLeftOptions :: bool
  dragObservers :: nat
  now :: nat
  rafQueued :: nat
  effects :: "sliding_effect list"

definition SWIPE_MARGIN :: real where
  "SWIPE_MARGIN = 30"

definition ELASTIC_FACTOR :: real where
  "ELASTIC_FACTOR = 55 / 100"

text \<open>The instance the constructor builds, before any options are attached.\<close>

definition ItemSliding_new :: item_sliding where
  "ItemSliding_new =
     \<lparr>openAmount = 0, startX = 0, optsWidthRightSide = 0, optsWidthLeftSide = 0,
      timer = None, optsDirty = True, state = 2, sides = 0,
      hasRightOptions = False, hasLeftOptions = False, dragObservers = 0,
      now = 0, rafQueued = 0, effects = [SetElementClass ''item-wrapper'' True]\<rparr>"

text \<open>
  \<^verbatim>\<open>ItemOptions.getSides\<close> on the \<^verbatim>\<open>side\<close> input (\<open>None\<close> when it is not present), and the
  setter \<^verbatim>\<open>_itemOptions\<close>, given the \<^verbatim>\<open>side\<close> inputs of the options elements in order.
\<close>

definition getSides :: "string option \<Rightarrow> nat" where
  "getSides side = (if side = Some ''left'' then 1 else 2)"

definition setItemOptions :: "string option list \<Rightarrow> item_sliding \<Rightarrow> item_sliding" where
  "setItemOptions itemOptions s =
     (let s1 = foldl (\<lambda>acc item. if getSides item = 1 then acc\<lparr>hasLeftOptions := True\<rparr>
                                  else acc\<lparr>hasRightOptions := True\<rparr>) s itemOptions;
          sds = foldl (\<lambda>acc item. acc OR getSides item) 0 itemOptions
      in s1\<lparr>optsDirty := True, sides := sds\<rparr>)"

definition setState :: "nat \<Rightarrow> item_sliding \<Rightarrow> item_sliding" where
  "setState st s =
     (if st = state s then s
      else s\<lparr>effects := effects s @
                [SetElementClass ''active-slide'' (st \<noteq> 2),
                 SetElementClass ''active-options-right'' (st AND 8 \<noteq> 0),
                 SetElementClass ''active-options-left'' (st AND 16 \<noteq> 0),
                 SetElementClass ''active-swipe-right'' (st AND 32 \<noteq> 0),
                 SetElementClass ''active-swipe-left'' (st AND 64 \<noteq> 0)],
             state := st\<rparr>)"

text \<open>
  \<^verbatim>\<open>_setOpenAmount\<close>. Clearing the timer forgets the pending timeout; an amount of
  exactly \<open>0\<close> arms a new one, due 600 ms from now, and returns before the transform
  and the drag event.
\<close>

definition setOpenAmount :: "real \<Rightarrow> bool \<Rightarrow> item_sliding \<Rightarrow> item_sliding" where
  "setOpenAmount amount isFinal s =
     (let s1 = s\<lparr>timer := None\<rparr>;
          s2 = s1\<lparr>openAmount := amount\<rparr>;
          s3 = (if isFinal then s2\<lparr>effects := effects s2 @ [SetItemTransition '''']\<rparr>
                else if 0 < amount then
                  setState (if optsWidthRightSide s2 + SWIPE_MARGIN \<le> amount
                            then 8 OR 32 else 8) s2
                else if amount < 0 then
                  setState (if amount \<le> - optsWidthLeftSide s2 - SWIPE_MARGIN
                            then 16 OR 64 else 16) s2
                else s2)
      in if amount = 0 then
           s3\<lparr>timer := Some (now s3 + 600),
              effects := effects s3 @ [SetItemTransform None]\<rparr>
         else
           (let s4 = s3\<lparr>effects := effects s3 @ [SetItemTransform (Some (- amount))]\<rparr>
            in if 0 < dragObservers s4 then s4\<lparr>effects := effects s4 @ [IonDrag]\<rparr>
               else s4))"

text \<open>
  The passage of \<open>dt\<close> milliseconds. A timeout that is due has its callback run:
  \<^verbatim>\<open>this._setState(Disabled); this._timer = null\<close>.
\<close>

definition advance :: "nat \<Rightarrow> item_sliding \<Rightarrow> item_sliding" where
  "advance dt s =
     (let s1 = s\<lparr>now := now s + dt\<rparr>
      in case timer s1 of
           None \<Rightarrow> s1
         | Some due \<Rightarrow> if due \<le> now s1 then (setState 2 s1)\<lparr>timer := None\<rparr> else s1)"

definition getOpenAmount :: "item_sliding \<Rightarrow> real" where
  "getOpenAmount s = openAmount s"

definition getSlidingPercent :: "item_sliding \<Rightarrow> jsnum" where
  "getSlidingPercent s =
     (if 0 < openAmount s then js_div (openAmount s) (optsWidthRightSide s)
      else if openAmount s < 0 then js_div (openAmount s) (optsWidthLeftSide s)
      else Fin 0)"

definition startSliding :: "real \<Rightarrow> item_sliding \<Rightarrow> item_sliding" where
  "startSliding x s =
     (let s1 = s\<lparr>timer := None\<rparr>;
          s2 = (if openAmount s1 = 0 then setState 4 (s1\<lparr>optsDirty := True\<rparr>) else s1);
          s3 = s2\<lparr>startX := x + openAmount s2\<rparr>
      in s3\<lparr>effects := effects s3 @ [SetItemTransition ''none'']\<rparr>)"

text \<open>
  \<^verbatim>\<open>calculateOptsWidth\<close> only queues a frame callback. \<open>calculateOptsWidth_frame\<close> is
  that callback; the widths it reads from the layout (\<^verbatim>\<open>offsetWidth\<close> of each options
  element) are its arguments.
\<close>

definition calculateOptsWidth :: "item_sliding \<Rightarrow> item_sliding" where
  "calculateOptsWidth s = s\<lparr>rafQueued := rafQueued s + 1\<rparr>"

definition calculateOptsWidth_frame :: "real \<Rightarrow> real \<Rightarrow> item_sliding \<Rightarrow> item_sliding" where
  "calculateOptsWidth_frame rightWidth leftWidth s =
     (let s0 = s\<lparr>rafQueued := rafQueued s - 1\<rparr>
      in if \<not> optsDirty s0 then s0
         else s0\<lparr>optsWidthRightSide := (if hasRightOptions s0 then rightWidth else 0),
                 optsWidthLeftSide := (if hasLeftOptions s0 then leftWidth else 0),
                 optsDirty := False\<rparr>)"

text \<open>
  \<^verbatim>\<open>moveSliding\<close> returns nothing (\<open>None\<close>) on the tick that finds the widths stale, and
  the open amount it stored otherwise.
\<close>

definition moveSliding :: "real \<Rightarrow> item_sliding \<Rightarrow> item_sliding \<times> real option" where
  "moveSliding x s =
     (if optsDirty s then (calculateOptsWidth s, None)
      else
        (let amount0 = startX s - x;
             amount1 = (if sides s = 2 then max 0 amount0
                        else if sides s = 1 then min 0 amount0
                        else amount0);
             amount2 = (if optsWidthRightSide s < amount1 then
                          (let optsWidth = optsWidthRightSide s
                           in optsWidth + (amount1 - optsWidth) * ELASTIC_FACTOR)
                        else if amount1 < - optsWidthLeftSide s then
                          (let optsWidth = - optsWidthLeftSide s
                           in optsWidth + (amount1 - optsWidth) * ELASTIC_FACTOR)
                        else amount1)
         in (setOpenAmount amount2 False s, Some amount2)))"

text \<open>
  Modelled from the spec: \<^verbatim>\<open>swipeShouldReset\<close> is imported from \<^verbatim>\<open>util/util\<close>, which is
  not among the sources. The specification fixes its value when the item is not moving
  fast: the item resets exactly when it is in the close zone, whatever the direction
  signal (``given \<^verbatim>\<open>openAmount = panelWidth * 0.6\<close>, \<^verbatim>\<open>velocity = 0\<close>, settles fully open
  (since offset exceeds half-width and direction check is neutral); given
  \<^verbatim>\<open>openAmount = panelWidth * 0.3\<close>, \<^verbatim>\<open>velocity = 0\<close>, settles closed''). For a fast
  movement it only calls the rule a policy function of the signals; those rows are the
  parameter \<open>fastRows\<close>.
\<close>

definition swipeShouldReset ::
  "(bool \<Rightarrow> bool \<Rightarrow> bool) \<Rightarrow> bool \<Rightarrow> bool \<Rightarrow> bool \<Rightarrow> bool" where
  "swipeShouldReset fastRows isResetDirection isMovingFast isOnCloseZone =
     (if isMovingFast then fastRows isResetDirection isOnCloseZone else isOnCloseZone)"

definition fireSwipeEvent :: "item_sliding \<Rightarrow> js_error + item_sliding" where
  "fireSwipeEvent s =
     (if state s AND 32 \<noteq> 0 then
        (if hasRightOptions s then Inr (s\<lparr>effects := effects s @ [IonSwipeRight]\<rparr>)
         else Inl TypeError)
      else if state s AND 64 \<noteq> 0 then
        (if hasLeftOptions s then Inr (s\<lparr>effects := effects s @ [IonSwipeLeft]\<rparr>)
         else Inl TypeError)
      else Inr s)"

text \<open>
  The first half of \<^verbatim>\<open>endSliding\<close>: the resting point it decides on, before it is
  stored.
\<close>

definition endSliding_restingPoint ::
  "(bool \<Rightarrow> bool \<Rightarrow> bool) \<Rightarrow> real \<Rightarrow> item_sliding \<Rightarrow> real" where
  "endSliding_restingPoint fastRows velocity s =
     (let restingPoint = (if 0 < openAmount s then optsWidthRightSide s
                          else - optsWidthLeftSide s);
          isResetDirection = ((0 < openAmount s) = (\<not> velocity < 0));
          isMovingFast = (3 / 10 < \<bar>velocity\<bar>);
          isOnCloseZone = (\<bar>openAmount s\<bar> < \<bar>restingPoint / 2\<bar>)
      in if swipeShouldReset fastRows isResetDirection isMovingFast isOnCloseZone then 0
         else restingPoint)"

definition endSliding ::
  "(bool \<Rightarrow> bool \<Rightarrow> bool) \<Rightarrow> real \<Rightarrow> item_sliding \<Rightarrow> js_error + item_sliding \<times> real" where
  "endSliding fastRows velocity s =
     (let restingPoint = endSliding_restingPoint fastRows velocity s
      in case fireSwipeEvent (setOpenAmount restingPoint True s) of
           Inl e \<Rightarrow> Inl e
         | Inr s' \<Rightarrow> Inr (s', restingPoint))"

definition close :: "item_sliding \<Rightarrow> item_sliding" where
  "close s = setOpenAmount 0 True s"

section \<open>ScrollView: reading and writing the offsets, animated scrolling\<close>

text \<open>
  The scrolled DOM element as far as \<^verbatim>\<open>ScrollView\<close> touches it: its two scroll offsets
  and the transform of its style (\<open>NoTransform\<close> is the empty string,
  \<open>Translate3d a b\<close> is \<^verbatim>\<open>translate3d(a px,b px,0px)\<close>). An assignment to
  \<^verbatim>\<open>scrollTop\<close> or \<^verbatim>\<open>scrollLeft\<close> stores the number as it is written.
\<close>

datatype transform = NoTransform | Translate3d jsnum jsnum

record element =
  scrollTop :: jsnum
  scrollLeft :: jsnum
  styleTransform :: transform

text \<open>
  The fields \<^verbatim>\<open>_js\<close>, \<^verbatim>\<open>_el\<close>, \<^verbatim>\<open>_t\<close>, \<^verbatim>\<open>_l\<close> and \<^verbatim>\<open>isScrolling\<close> of \<^verbatim>\<open>ScrollView\<close>;
  \<open>sv_el = None\<close> is a missing element (\<^verbatim>\<open>destroy\<close> sets it to \<^verbatim>\<open>null\<close>).
\<close>

record scroll_view =
  sv_js :: bool
  sv_el :: "element option"
  sv_t :: jsnum
  sv_l :: jsnum
  isScrolling :: bool

definition getTop :: "scroll_view \<Rightarrow> js_error + jsnum \<times> scroll_view" where
  "getTop s =
     (if sv_js s then Inr (sv_t s, s)
      else case sv_el s of
             None \<Rightarrow> Inl TypeError
           | Some e \<Rightarrow> Inr (scrollTop e, s\<lparr>sv_t := scrollTop e\<rparr>))"

definition getLeft :: "scroll_view \<Rightarrow> js_error + jsnum \<times> scroll_view" where
  "getLeft s =
     (if sv_js s then Inr (Fin 0, s)
      else case sv_el s of
             None \<Rightarrow> Inl TypeError
           | Some e \<Rightarrow> Inr (scrollLeft e, s\<lparr>sv_l := scrollLeft e\<rparr>))"

definition setTop :: "jsnum \<Rightarrow> scroll_view \<Rightarrow> js_error + scroll_view" where
  "setTop newTop s =
     (let s1 = s\<lparr>sv_t := newTop\<rparr>
      in case sv_el s1 of
           None \<Rightarrow> Inl TypeError
         | Some e \<Rightarrow>
             if sv_js s1 then
               Inr (s1\<lparr>sv_el := Some (e\<lparr>styleTransform :=
                      Translate3d (js_mul (sv_l s1) (Fin (- 1))) (js_mul newTop (Fin (- 1)))\<rparr>)\<rparr>)
             else Inr (s1\<lparr>sv_el := Some (e\<lparr>scrollTop := newTop\<rparr>)\<rparr>))"

definition setLeft :: "jsnum \<Rightarrow> scroll_view \<Rightarrow> js_error + scroll_view" where
  "setLeft left s =
     (let s1 = s\<lparr>sv_l := left\<rparr>
      in case sv_el s1 of
           None \<Rightarrow> Inl TypeError
         | Some e \<Rightarrow>
             if sv_js s1 then
               Inr (s1\<lparr>sv_el := Some (e\<lparr>styleTransform :=
                      Translate3d (js_mul left (Fin (- 1))) (js_mul (sv_t s1) (Fin (- 1)))\<rparr>)\<rparr>)
             else Inr (s1\<lparr>sv_el := Some (e\<lparr>scrollLeft := left\<rparr>)\<rparr>))"

definition stop :: "scroll_view \<Rightarrow> scroll_view" where
  "stop s = s\<lparr>isScrolling := False\<rparr>"

text \<open>\<^verbatim>\<open>destroy\<close>, as far as the fields above go: it stops and drops the element.\<close>

definition destroy :: "scroll_view \<Rightarrow> scroll_view" where
  "destroy s = (stop s)\<lparr>sv_el := None\<rparr>"

text \<open>
  The variables one call of \<^verbatim>\<open>scrollTo(x, y, duration)\<close> closes over. \<open>toX\<close> and \<open>toY\<close>
  are the arguments \<^verbatim>\<open>x\<close> and \<^verbatim>\<open>y\<close> (finite numbers, which \<^verbatim>\<open>x || 0\<close> leaves as they
  are); \<open>startTime = None\<close> is the variable before its assignment. \<open>doneCalls\<close> counts
  the calls of \<^verbatim>\<open>done\<close>, the resolver of the promise the call returns, and
  \<open>framePending\<close> says that a frame callback is queued (by \<^verbatim>\<open>rafFrames\<close> for the first
  frame, by \<^verbatim>\<open>nativeRaf(step)\<close> afterwards).
\<close>

record scroll_anim =
  toX :: real
  toY :: real
  duration :: real
  fromX :: jsnum
  fromY :: jsnum
  maxAttempts :: real
  startTime :: "real option"
  attempts :: nat
  doneCalls :: nat
  framePending :: bool

text \<open>
  \<^verbatim>\<open>scrollTo\<close> up to its return. Without an element it calls \<^verbatim>\<open>done\<close> at once
  (\<open>Completed\<close>); otherwise it leaves an animation waiting for its first frame.
\<close>

datatype scroll_call = Completed | Animating scroll_anim

definition scrollTo :: "real \<Rightarrow> real \<Rightarrow> real \<Rightarrow> scroll_view \<Rightarrow> scroll_view \<times> scroll_call" where
  "scrollTo x y dur s =
     (case sv_el s of
        None \<Rightarrow> (s, Completed)
      | Some e \<Rightarrow>
          (s\<lparr>isScrolling := True\<rparr>,
           Animating \<lparr>toX = x, toY = y, duration = dur,
                      fromX = scrollLeft e, fromY = scrollTop e,
                      maxAttempts = dur / 16 + 100, startTime = None,
                      attempts = 0, doneCalls = 0, framePending = True\<rparr>))"

text \<open>
  The frame callback \<^verbatim>\<open>step(timeStamp)\<close>. An exception leaves the callback with the
  state reached so far, which is kept beside the error.
\<close>

definition step ::
  "real \<Rightarrow> scroll_view \<times> scroll_anim
     \<Rightarrow> js_error \<times> (scroll_view \<times> scroll_anim) + scroll_view \<times> scroll_anim" where
  "step timeStamp st =
     (let sv = fst st;
          a = (snd st)\<lparr>attempts := attempts (snd st) + 1\<rparr>
      in if sv_el sv = None \<or> \<not> isScrolling sv \<or> maxAttempts a < real (attempts a) then
           (let sv1 = sv\<lparr>isScrolling := False\<rparr>
            in case sv_el sv1 of
                 None \<Rightarrow> Inl (TypeError, (sv1, a))
               | Some e \<Rightarrow>
                   Inr (sv1\<lparr>sv_el := Some (e\<lparr>styleTransform := NoTransform\<rparr>)\<rparr>,
                        a\<lparr>doneCalls := doneCalls a + 1\<rparr>))
         else
           (let time0 = js_min (Fin 1)
                          (case startTime a of
                             None \<Rightarrow> NaN
                           | Some t0 \<Rightarrow> js_div (timeStamp - t0) (duration a));
                time = js_sub time0 (Fin 1);
                easedT = js_add (js_mul (js_mul time time) time) (Fin 1);
                r1 = (if js_strict_neq (fromY a) (Fin (toY a)) then
                        setTop (js_add (js_mul easedT (js_sub (Fin (toY a)) (fromY a)))
                                  (fromY a)) sv
                      else Inr sv)
            in case r1 of
                 Inl e \<Rightarrow> Inl (e, (sv, a))
               | Inr sv1 \<Rightarrow>
                   (let r2 = (if js_strict_neq (fromX a) (Fin (toX a)) then
                                setLeft (js_floor
                                  (js_add (js_mul easedT (js_sub (Fin (toX a)) (fromX a)))
                                     (fromX a))) sv1
                              else Inr sv1)
                    in case r2 of
                         Inl e \<Rightarrow> Inl (e, (sv1, a))
                       | Inr sv2 \<Rightarrow>
                           if js_lt easedT (Fin 1) then Inr (sv2, a\<lparr>framePending := True\<rparr>)
                           else
                             (let sv3 = sv2\<lparr>isScrolling := False\<rparr>
                              in case sv_el sv3 of
                                   None \<Rightarrow> Inl (TypeError, (sv3, a))
                                 | Some e \<Rightarrow>
                                     Inr (sv3\<lparr>sv_el :=
                                            Some (e\<lparr>styleTransform := NoTransform\<rparr>)\<rparr>,
                                          a\<lparr>doneCalls := doneCalls a + 1\<rparr>)))))"

text \<open>The callback handed to \<^verbatim>\<open>rafFrames\<close>: it records the start time and steps.\<close>

definition first_frame ::
  "real \<Rightarrow> scroll_view \<times> scroll_anim
     \<Rightarrow> js_error \<times> (scroll_view \<times> scroll_anim) + scroll_view \<times> scroll_anim" where
  "first_frame timeStamp st = step timeStamp (fst st, (snd st)\<lparr>startTime := Some timeStamp\<rparr>)"

text \<open>
  What happens to a view while an animation is under way: a display frame with its time
  stamp, on which the queued callback (if any) runs, or a call of \<^verbatim>\<open>destroy\<close> or
  \<^verbatim>\<open>stop\<close> from outside. \<open>run_frames\<close> plays such a sequence; an exception thrown by a
  callback ends the animation, nothing being queued any more.
\<close>

datatype frame_event = Frame real | Destroy | Stop

fun run_frames ::
  "frame_event list \<Rightarrow> scroll_view \<times> scroll_anim
     \<Rightarrow> js_error \<times> (scroll_view \<times> scroll_anim) + scroll_view \<times> scroll_anim" where
  "run_frames [] st = Inr st"
| "run_frames (Frame timeStamp # es) st =
     (if framePending (snd st) then
        (case (if startTime (snd st) = None then first_frame timeStamp
               else step timeStamp) (fst st, (snd st)\<lparr>framePending := False\<rparr>) of
           Inl e \<Rightarrow> Inl e
         | Inr st' \<Rightarrow> run_frames es st')
      else run_frames es st)"
| "run_frames (Destroy # es) st = run_frames es (destroy (fst st), snd st)"
| "run_frames (Stop # es) st = run_frames es (stop (fst st), snd st)"

section \<open>ScrollView: the deceleration loop of synthetic (js) scrolling\<close>



definition MIN_VELOCITY_START_DECELERATION :: real where
  "MIN_VELOCITY_START_DECELERATION = 4"










section \<open>PanGesture: the pan gesture controller\<close>

text \<open>
  The calls the controller makes on its collaborators and on the hooks a subclass
  overrides, in order: \<^verbatim>\<open>canStart\<close>, the gesture delegate's \<^verbatim>\<open>release\<close>, \<^verbatim>\<open>start\<close> and
  \<^verbatim>\<open>capture\<close>, the recognizer's \<^verbatim>\<open>start\<close>, \<^verbatim>\<open>detect\<close> and \<^verbatim>\<open>pan\<close>, the hooks
  \<^verbatim>\<open>onDragStart\<close>, \<^verbatim>\<open>onDragEnd\<close> and \<^verbatim>\<open>notCaptured\<close>, \<^verbatim>\<open>pointerEvents.stop\<close>, and the
  debouncer's \<^verbatim>\<open>write\<close> (which queues \<^verbatim>\<open>onDragMove\<close>) and \<^verbatim>\<open>cancel\<close>.
\<close>

datatype pan_call =
    CanStart
  | GestureRelease
  | GestureStart
  | GestureCapture
  | DetectorStart
  | DetectorDetect
  | DetectorPan
  | OnDragStart
  | OnDragEnd
  | NotCaptured
  | PointerEventsStop
  | DebouncerWrite
  | DebouncerCancel

text \<open>
  A pointer event together with what the collaborators answer while it is handled: the
  subclass's \<^verbatim>\<open>canStart(ev)\<close>, the gesture delegate's \<^verbatim>\<open>start()\<close> and \<^verbatim>\<open>capture()\<close> (the
  capture arbitration), and the recognizer's \<^verbatim>\<open>detect(coord)\<close> and \<^verbatim>\<open>pan()\<close>. The
  recognizer (\<^verbatim>\<open>PanRecognizer\<close>) and the delegate are not among the sources; their
  answers are inputs.
\<close>

record pointer_ev =
  canStart_answer :: bool
  start_answer :: bool
  capture_answer :: bool
  detect_answer :: bool
  pan_answer :: int

text \<open>
  The fields of \<^verbatim>\<open>PanGesture\<close>. \<open>gestute\<close> (the source's spelling), \<open>detector\<close> and
  \<open>debouncer\<close> say whether the respective object is defined; \<open>pointerEvents\<close> is \<open>None\<close>
  before \<^verbatim>\<open>listen\<close> has run and otherwise tells whether the move and up events of the
  current pointer are still being delivered. \<open>calls\<close> is the log of calls made.
\<close>

record pan_gesture =
  started :: bool
  captured :: bool
  isListening :: bool
  gestute :: bool
  detector :: bool
  debouncer :: bool
  pointerEvents :: "bool option"
  calls :: "pan_call list"

text \<open>
  The constructor, given the threshold that \<^verbatim>\<open>defaults\<close> has left in \<^verbatim>\<open>opts\<close> (20 when
  the caller gave none) and whether \<^verbatim>\<open>opts.gesture\<close> and \<^verbatim>\<open>opts.domController\<close> are set.
\<close>

definition PanGesture_new :: "real \<Rightarrow> bool \<Rightarrow> bool \<Rightarrow> pan_gesture" where
  "PanGesture_new threshold hasGesture hasDomController =
     \<lparr>started = False, captured = False, isListening = False,
      gestute = hasGesture, detector = (0 < threshold), debouncer = hasDomController,
      pointerEvents = None, calls = []\<rparr>"

definition listen :: "pan_gesture \<Rightarrow> pan_gesture" where
  "listen s = (if isListening s then s else s\<lparr>pointerEvents := Some False, isListening := True\<rparr>)"

definition log_call :: "pan_call \<Rightarrow> pan_gesture \<Rightarrow> pan_gesture" where
  "log_call c s = s\<lparr>calls := calls s @ [c]\<rparr>"

definition tryToCapture :: "pointer_ev \<Rightarrow> pan_gesture \<Rightarrow> bool \<times> pan_gesture" where
  "tryToCapture ev s =
     (if gestute s \<and> \<not> capture_answer ev then (False, log_call GestureCapture s)
      else
        (let s1 = (if gestute s then log_call GestureCapture s else s);
             s2 = log_call OnDragStart s1
         in (True, s2\<lparr>captured := True\<rparr>)))"

text \<open>
  \<^verbatim>\<open>pointerDown\<close> returns nothing (\<open>None\<close>), \<^verbatim>\<open>false\<close> or \<^verbatim>\<open>true\<close>. Calling a method of
  an undefined \<^verbatim>\<open>gestute\<close> is a TypeError.
\<close>

definition pointerDown :: "pointer_ev \<Rightarrow> pan_gesture \<Rightarrow> js_error + bool option \<times> pan_gesture" where
  "pointerDown ev s =
     (if started s then Inr (None, s)
      else
        (let s1 = log_call CanStart s
         in if \<not> canStart_answer ev then Inr (Some False, s1)
            else
              (let s2 = (if gestute s1 then log_call GestureStart (log_call GestureRelease s1)
                         else s1)
               in if gestute s1 \<and> \<not> start_answer ev then Inr (Some False, s2)
                  else
                    (let s3 = s2\<lparr>started := True, captured := False\<rparr>
                     in if detector s3 then Inr (Some True, log_call DetectorStart s3)
                        else
                          (case tryToCapture ev s3 of
                             (True, s4) \<Rightarrow> Inr (Some True, s4)
                           | (False, s4) \<Rightarrow>
                               (let s5 = s4\<lparr>started := False, captured := False\<rparr>
                                in if gestute s5
                                   then Inr (Some False, log_call GestureRelease s5)
                                   else Inl TypeError))))))"

definition abort :: "pan_gesture \<Rightarrow> js_error + pan_gesture" where
  "abort s =
     (let s1 = s\<lparr>started := False, captured := False\<rparr>
      in if \<not> gestute s1 then Inl TypeError
         else
           (let s2 = log_call GestureRelease s1
            in case pointerEvents s2 of
                 None \<Rightarrow> Inl TypeError
               | Some _ \<Rightarrow>
                   Inr (log_call NotCaptured
                          (log_call PointerEventsStop (s2\<lparr>pointerEvents := Some False\<rparr>)))))"

definition pointerMove :: "pointer_ev \<Rightarrow> pan_gesture \<Rightarrow> js_error + pan_gesture" where
  "pointerMove ev s =
     (if captured s then
        (if debouncer s then Inr (log_call DebouncerWrite s) else Inl TypeError)
      else if \<not> detector s then Inl TypeError
      else
        (let s1 = log_call DetectorDetect s
         in if detect_answer ev then
              (let s2 = log_call DetectorPan s1
               in if pan_answer ev \<noteq> 0 then
                    (case tryToCapture ev s2 of
                       (True, s3) \<Rightarrow> Inr s3
                     | (False, s3) \<Rightarrow> abort s3)
                  else Inr s2)
            else Inr s1))"

definition pointerUp :: "pointer_ev \<Rightarrow> pan_gesture \<Rightarrow> js_error + pan_gesture" where
  "pointerUp ev s =
     (if \<not> debouncer s then Inl TypeError
      else
        (let s1 = log_call DebouncerCancel s;
             s2 = (if gestute s1 then log_call GestureRelease s1 else s1);
             s3 = (if captured s2 then log_call OnDragEnd s2 else log_call NotCaptured s2)
         in Inr (s3\<lparr>captured := False, started := False\<rparr>)))"

text \<open>
  Modelled from the spec: the pointer event source (\<^verbatim>\<open>UIEventManager.pointerEvents\<close> of
  \<^verbatim>\<open>util/ui-event-manager\<close>) is not among the sources. The specification orders the
  events of one pointer session as ``down, zero or more move, up or cancel'' and says
  that a failed capture ``aborts the whole session rather than retrying'', with ``no
  retry within the same pointer session''. Accordingly \<^verbatim>\<open>stop\<close> closes the delivery of
  the current pointer's moves, and a move reaches \<^verbatim>\<open>pointerMove\<close> only while the delivery
  is open (\<open>pointerEvents = Some True\<close>).
\<close>

definition deliver_move :: "pointer_ev \<Rightarrow> pan_gesture \<Rightarrow> js_error + pan_gesture" where
  "deliver_move ev s = (if pointerEvents s = Some True then pointerMove ev s else Inr s)"

fun deliver_moves :: "pointer_ev list \<Rightarrow> pan_gesture \<Rightarrow> js_error + pan_gesture" where
  "deliver_moves [] s = Inr s"
| "deliver_moves (ev # evs) s =
     (case deliver_move ev s of Inl e \<Rightarrow> Inl e | Inr s' \<Rightarrow> deliver_moves evs s')"

section \<open>RadioGroup: keeping the buttons in step with the group's value\<close>

text \<open>
  A radio button as the group sees it: the id that becomes the group's
  \<^verbatim>\<open>aria-activedescendant\<close>, the button's value and its \<^verbatim>\<open>checked\<close> flag.
\<close>

record 'v radio_button =
  btn_id :: string
  btn_value :: 'v
  checked :: bool

text \<open>
  \<^verbatim>\<open>RadioGroup._update\<close> walks \<^verbatim>\<open>this._btns\<close> in registration order with the local
  flag \<^verbatim>\<open>hasChecked\<close>. The comparison \<^verbatim>\<open>isCheckedProperty\<close> is imported from
  \<^verbatim>\<open>util/util\<close> and is a parameter here. The loop state is the flag, the buttons already
  visited (with their new \<^verbatim>\<open>checked\<close>) and the ids passed to \<^verbatim>\<open>_setActive\<close> so far, oldest
  first; the last of them is the attribute's final value.
\<close>

fun update_loop ::
  "('v \<Rightarrow> 'v \<Rightarrow> bool) \<Rightarrow> 'v \<Rightarrow> bool \<Rightarrow> 'v radio_button list
     \<Rightarrow> 'v radio_button list \<times> string list" where
  "update_loop isCheckedProperty v hasChecked [] = ([], [])"
| "update_loop isCheckedProperty v hasChecked (b # bs) =
     (let c = (isCheckedProperty v (btn_value b) \<and> \<not> hasChecked);
          b' = b\<lparr>checked := c\<rparr>;
          (bs', acts) = update_loop isCheckedProperty v (if c then True else hasChecked) bs
      in (b' # bs', (if c then [btn_id b'] else []) @ acts))"

definition update_group ::
  "('v \<Rightarrow> 'v \<Rightarrow> bool) \<Rightarrow> 'v \<Rightarrow> 'v radio_button list
     \<Rightarrow> 'v radio_button list \<times> string list" where
  "update_group isCheckedProperty v btns = update_loop isCheckedProperty v False btns"

section \<open>Properties of ItemSliding\<close>

lemma setOpenAmount_openAmount: "openAmount (setOpenAmount a f s) = a"
  by (simp add: setOpenAmount_def setState_def Let_def)

lemma setOpenAmount_timer:
  "timer (setOpenAmount a f s) = (if a = 0 then Some (now s + 600) else None)"
  by (simp add: setOpenAmount_def setState_def Let_def)

lemma setOpenAmount_now: "now (setOpenAmount a f s) = now s"
  by (simp add: setOpenAmount_def setState_def Let_def)

lemma setOpenAmount_final_state: "state (setOpenAmount a True s) = state s"
  by (simp add: setOpenAmount_def setState_def Let_def)

lemma setState_state: "state (setState st s) = st"
  by (simp add: setState_def)

text \<open>
  C1. With fresh panel widths \<^verbatim>\<open>moveSliding(x)\<close> returns the open amount it stores.
  Before the elastic step the amount is \<open>startX - x\<close>, clamped to \<open>\<ge> 0\<close> when only a
  right panel exists, to \<open>\<le> 0\<close> when only a left panel exists, and left alone when both
  exist. An amount that exceeds the right width by \<open>d\<close> is stored as
  \<open>width + d * 0.55\<close>, one that exceeds the left width by \<open>d\<close> on the negative side as
  \<open>- (width + d * 0.55)\<close>, and one within the widths as it is.
\<close>

theorem moveSliding_elastic:
  assumes "\<not> optsDirty s"
  shows "let amount = startX s - x;
             clamped = (if sides s = 2 then max 0 amount
                        else if sides s = 1 then min 0 amount else amount);
             wr = optsWidthRightSide s;
             wl = optsWidthLeftSide s;
             s' = fst (moveSliding x s)
         in snd (moveSliding x s) = Some (openAmount s')
            \<and> (sides s = 2 \<longrightarrow> 0 \<le> clamped) \<and> (sides s = 1 \<longrightarrow> clamped \<le> 0)
            \<and> (sides s = 3 \<longrightarrow> clamped = amount)
            \<and> (\<forall>d. 0 < d \<and> clamped = wr + d \<longrightarrow> openAmount s' = wr + d * (55 / 100))
            \<and> (\<forall>d. 0 < d \<and> 0 \<le> wr \<and> 0 \<le> wl \<and> clamped = - (wl + d)
                   \<longrightarrow> openAmount s' = - (wl + d * (55 / 100)))
            \<and> (- wl \<le> clamped \<and> clamped \<le> wr \<longrightarrow> openAmount s' = clamped)"
  using assms
  by (auto simp: moveSliding_def Let_def setOpenAmount_openAmount ELASTIC_FACTOR_def
      algebra_simps)

theorem moveSliding_elastic_witness:
  "\<not> optsDirty (ItemSliding_new\<lparr>hasRightOptions := True, sides := 2,
        optsWidthRightSide := 80, optsDirty := False, startX := 100\<rparr>)
   \<and> moveSliding 10 (ItemSliding_new\<lparr>hasRightOptions := True, sides := 2,
        optsWidthRightSide := 80, optsDirty := False, startX := 100\<rparr>)
     = (ItemSliding_new\<lparr>hasRightOptions := True, sides := 2,
        optsWidthRightSide := 80, optsDirty := False, startX := 100, openAmount := 171 / 2,
        state := 8,
        effects := [SetElementClass ''item-wrapper'' True,
          SetElementClass ''active-slide'' True,
          SetElementClass ''active-options-right'' True,
          SetElementClass ''active-options-left'' False,
          SetElementClass ''active-swipe-right'' False,
          SetElementClass ''active-swipe-left'' False,
          SetItemTransform (Some (- (171 / 2)))]\<rparr>, Some (80 + 10 * (55 / 100)))"
  using moveSliding_elastic [of "ItemSliding_new\<lparr>hasRightOptions := True, sides := 2,
        optsWidthRightSide := 80, optsDirty := False, startX := 100\<rparr>" 10]
  by (simp add: Let_def ItemSliding_new_def moveSliding_def setOpenAmount_def setState_def
      ELASTIC_FACTOR_def SWIPE_MARGIN_def)

lemma endSliding_returns:
  assumes "state s AND 32 \<noteq> 0 \<longrightarrow> hasRightOptions s"
    and "state s AND 32 = 0 \<and> state s AND 64 \<noteq> 0 \<longrightarrow> hasLeftOptions s"
  shows "\<exists>s'. endSliding fastRows velocity s
                 = Inr (s', endSliding_restingPoint fastRows velocity s)
              \<and> openAmount s' = endSliding_restingPoint fastRows velocity s"
  using assms
  by (auto simp: endSliding_def fireSwipeEvent_def Let_def setOpenAmount_final_state
      setOpenAmount_openAmount setOpenAmount_def)

lemma resting_right_open:
  "0 < w \<Longrightarrow> optsWidthRightSide s = w \<Longrightarrow> openAmount s = w * (6 / 10)
     \<Longrightarrow> endSliding_restingPoint fastRows 0 s = w"
  by (simp add: endSliding_restingPoint_def swipeShouldReset_def Let_def abs_if)

lemma resting_right_closed:
  "0 < w \<Longrightarrow> optsWidthRightSide s = w \<Longrightarrow> openAmount s = w * (3 / 10)
     \<Longrightarrow> endSliding_restingPoint fastRows 0 s = 0"
  by (simp add: endSliding_restingPoint_def swipeShouldReset_def Let_def abs_if)

lemma resting_left_open:
  "0 < w \<Longrightarrow> optsWidthLeftSide s = w \<Longrightarrow> openAmount s = - (w * (6 / 10))
     \<Longrightarrow> endSliding_restingPoint fastRows 0 s = - w"
  by (simp add: endSliding_restingPoint_def swipeShouldReset_def Let_def abs_if)

lemma resting_left_closed:
  "0 < w \<Longrightarrow> optsWidthLeftSide s = w \<Longrightarrow> openAmount s = - (w * (3 / 10))
     \<Longrightarrow> endSliding_restingPoint fastRows 0 s = 0"
  by (simp add: endSliding_restingPoint_def swipeShouldReset_def Let_def abs_if)

text \<open>
  C2. \<^verbatim>\<open>endSliding(velocity)\<close> returns and stores the resting point: 0 when
  \<^verbatim>\<open>swipeShouldReset\<close> says so for the three signals \<^verbatim>\<open>isResetDirection\<close>,
  \<^verbatim>\<open>|velocity| > 0.3\<close> and offset-short-of-halfway, and otherwise the width of the open
  side (negative on the left). With velocity 0 an open amount of 0.6 of the width
  settles fully open and one of 0.3 of the width settles closed, on either side.
\<close>

theorem endSliding_settles:
  "((state s AND 32 \<noteq> 0 \<longrightarrow> hasRightOptions s)
      \<and> (state s AND 32 = 0 \<and> state s AND 64 \<noteq> 0 \<longrightarrow> hasLeftOptions s)
     \<longrightarrow> (\<exists>s'. endSliding fastRows velocity s
                   = Inr (s', endSliding_restingPoint fastRows velocity s)
                \<and> openAmount s' = endSliding_restingPoint fastRows velocity s))
   \<and> endSliding_restingPoint fastRows velocity s =
       (let side = (if 0 < openAmount s then optsWidthRightSide s else - optsWidthLeftSide s)
        in if swipeShouldReset fastRows
                ((0 < openAmount s) = (\<not> velocity < 0))
                (3 / 10 < \<bar>velocity\<bar>)
                (\<bar>openAmount s\<bar> < \<bar>side / 2\<bar>)
           then 0 else side)
   \<and> (0 < w \<and> optsWidthRightSide s = w \<and> openAmount s = w * (6 / 10)
        \<longrightarrow> endSliding_restingPoint fastRows 0 s = w)
   \<and> (0 < w \<and> optsWidthRightSide s = w \<and> openAmount s = w * (3 / 10)
        \<longrightarrow> endSliding_restingPoint fastRows 0 s = 0)
   \<and> (0 < w \<and> optsWidthLeftSide s = w \<and> openAmount s = - (w * (6 / 10))
        \<longrightarrow> endSliding_restingPoint fastRows 0 s = - w)
   \<and> (0 < w \<and> optsWidthLeftSide s = w \<and> openAmount s = - (w * (3 / 10))
        \<longrightarrow> endSliding_restingPoint fastRows 0 s = 0)"
proof (intro conjI impI)
  assume "(state s AND 32 \<noteq> 0 \<longrightarrow> hasRightOptions s)
      \<and> (state s AND 32 = 0 \<and> state s AND 64 \<noteq> 0 \<longrightarrow> hasLeftOptions s)"
  then show "\<exists>s'. endSliding fastRows velocity s
                   = Inr (s', endSliding_restingPoint fastRows velocity s)
                \<and> openAmount s' = endSliding_restingPoint fastRows velocity s"
    by (intro endSliding_returns) blast+
next
  show "endSliding_restingPoint fastRows velocity s =
       (let side = (if 0 < openAmount s then optsWidthRightSide s else - optsWidthLeftSide s)
        in if swipeShouldReset fastRows
                ((0 < openAmount s) = (\<not> velocity < 0))
                (3 / 10 < \<bar>velocity\<bar>)
                (\<bar>openAmount s\<bar> < \<bar>side / 2\<bar>)
           then 0 else side)"
    by (simp add: endSliding_restingPoint_def Let_def)
next
  assume "0 < w \<and> optsWidthRightSide s = w \<and> openAmount s = w * (6 / 10)"
  then show "endSliding_restingPoint fastRows 0 s = w"
    using resting_right_open [of w s fastRows] by blast
next
  assume "0 < w \<and> optsWidthRightSide s = w \<and> openAmount s = w * (3 / 10)"
  then show "endSliding_restingPoint fastRows 0 s = 0"
    using resting_right_closed [of w s fastRows] by blast
next
  assume "0 < w \<and> optsWidthLeftSide s = w \<and> openAmount s = - (w * (6 / 10))"
  then show "endSliding_restingPoint fastRows 0 s = - w"
    using resting_left_open [of w s fastRows] by blast
next
  assume "0 < w \<and> optsWidthLeftSide s = w \<and> openAmount s = - (w * (3 / 10))"
  then show "endSliding_restingPoint fastRows 0 s = 0"
    using resting_left_closed [of w s fastRows] by blast
qed

theorem endSliding_settles_witness:
  "endSliding (\<lambda>d z. d) 0 (ItemSliding_new\<lparr>hasRightOptions := True, sides := 2,
        optsWidthRightSide := 80, optsDirty := False, state := 8, openAmount := 48\<rparr>)
     = Inr (ItemSliding_new\<lparr>hasRightOptions := True, sides := 2,
        optsWidthRightSide := 80, optsDirty := False, state := 8, openAmount := 80,
        effects := [SetElementClass ''item-wrapper'' True, SetItemTransition '''',
                    SetItemTransform (Some (- 80))]\<rparr>, 80)
   \<and> endSliding_restingPoint (\<lambda>d z. d) 0 (ItemSliding_new\<lparr>hasRightOptions := True,
        sides := 2, optsWidthRightSide := 80, optsDirty := False, state := 8,
        openAmount := 48\<rparr>) = 80"
  using endSliding_settles [of "ItemSliding_new\<lparr>hasRightOptions := True, sides := 2,
        optsWidthRightSide := 80, optsDirty := False, state := 8, openAmount := 48\<rparr>"
        "\<lambda>d z. d" 0 80]
  by (simp add: ItemSliding_new_def endSliding_def Let_def fireSwipeEvent_def
      setOpenAmount_def)

lemma advance_no_timer: "timer s = None \<Longrightarrow> advance dt s = s\<lparr>now := now s + dt\<rparr>"
  by (simp add: advance_def Let_def)

lemma advance_pending:
  "timer s = Some due \<Longrightarrow> now s + dt < due \<Longrightarrow> advance dt s = s\<lparr>now := now s + dt\<rparr>"
  by (simp add: advance_def Let_def)

lemma advance_due:
  "timer s = Some due \<Longrightarrow> due \<le> now s + dt
     \<Longrightarrow> advance dt s = (setState 2 (s\<lparr>now := now s + dt\<rparr>))\<lparr>timer := None\<rparr>"
  by (simp add: advance_def Let_def)

lemma startSliding_timer: "timer (startSliding x s) = None"
  by (simp add: startSliding_def setState_def Let_def)

lemma startSliding_closed_state: "openAmount s = 0 \<Longrightarrow> state (startSliding x s) = 4"
  by (simp add: startSliding_def setState_def Let_def)

text \<open>
  C7, as amended. Setting the open amount to 0 arms a timer due 600 ms later; when it
  expires the state becomes Disabled and the timer is cleared, and before that the state
  is untouched. \<^verbatim>\<open>startSliding\<close> before the expiry cancels the timer and enables the item,
  and the state stays Enabled however much time passes. An update to a non-zero open
  amount before the expiry cancels the timer too, and the passing of time no longer
  changes the state. An update to 0 before the expiry replaces the timer by a fresh one,
  due 600 ms after that update, at which time the state becomes Disabled.
\<close>

theorem auto_disable_timer:
  "timer (setOpenAmount 0 isFinal s) = Some (now s + 600)
   \<and> (600 \<le> dt \<longrightarrow> state (advance dt (setOpenAmount 0 isFinal s)) = 2
                    \<and> timer (advance dt (setOpenAmount 0 isFinal s)) = None)
   \<and> (t < 600 \<longrightarrow>
        state (advance t (setOpenAmount 0 isFinal s)) = state (setOpenAmount 0 isFinal s)
        \<and> timer (startSliding x (advance t (setOpenAmount 0 isFinal s))) = None
        \<and> state (startSliding x (advance t (setOpenAmount 0 isFinal s))) = 4
        \<and> state (advance dt (startSliding x (advance t (setOpenAmount 0 isFinal s)))) = 4
        \<and> (amount \<noteq> 0 \<longrightarrow>
             timer (setOpenAmount amount f (advance t (setOpenAmount 0 isFinal s))) = None
             \<and> state (advance dt (setOpenAmount amount f
                        (advance t (setOpenAmount 0 isFinal s))))
                 = state (setOpenAmount amount f (advance t (setOpenAmount 0 isFinal s))))
        \<and> timer (setOpenAmount 0 f (advance t (setOpenAmount 0 isFinal s)))
            = Some (now s + t + 600)
        \<and> state (advance 600 (setOpenAmount 0 f (advance t (setOpenAmount 0 isFinal s))))
            = 2)"
proof -
  let ?c = "setOpenAmount 0 isFinal s"
  have tc: "timer ?c = Some (now s + 600)" and nc: "now ?c = now s"
    by (simp_all add: setOpenAmount_timer setOpenAmount_now)
  have fired: "state (advance dt ?c) = 2 \<and> timer (advance dt ?c) = None" if "600 \<le> dt"
    using that advance_due [OF tc, of dt] by (simp add: nc setState_state)
  have early: "advance t ?c = ?c\<lparr>now := now s + t\<rparr>" if "t < 600"
    using that advance_pending [OF tc, of t] by (simp add: nc)
  have early_state: "state (advance t ?c) = state ?c" if "t < 600"
    using that by (simp add: early)
  have open0: "openAmount (advance t ?c) = 0" if "t < 600"
    using that by (simp add: early setOpenAmount_openAmount)
  have start4: "state (startSliding x (advance t ?c)) = 4" if "t < 600"
    using that open0 by (simp add: startSliding_closed_state)
  have start4': "state (advance dt (startSliding x (advance t ?c))) = 4" if "t < 600"
    using that start4 by (simp add: advance_no_timer startSliding_timer)
  have upd: "timer (setOpenAmount amount f (advance t ?c)) = None
      \<and> state (advance dt (setOpenAmount amount f (advance t ?c)))
          = state (setOpenAmount amount f (advance t ?c))" if "amount \<noteq> 0"
    using that by (simp add: advance_no_timer setOpenAmount_timer)
  have rearm: "timer (setOpenAmount 0 f (advance t ?c)) = Some (now s + t + 600)"
    if "t < 600"
    using that by (simp add: setOpenAmount_timer early)
  have refire: "state (advance 600 (setOpenAmount 0 f (advance t ?c))) = 2" if "t < 600"
    using advance_due [OF rearm [OF that], of 600] that
    by (simp add: setOpenAmount_now early setState_state)
  show ?thesis
    using tc fired early_state start4 start4' upd rearm refire
      startSliding_timer [of x "advance t ?c"]
    by blast
qed

theorem auto_disable_timer_witness:
  "state (advance 600 (close ((startSliding 100 ItemSliding_new)))) = 2
   \<and> state (advance 599 (close (startSliding 100 ItemSliding_new))) = 4
   \<and> state (advance 1000 (startSliding 50 (advance 599 (close (startSliding 100
        ItemSliding_new))))) = 4
   \<and> timer (setOpenAmount 12 False (advance 599 (close (startSliding 100 ItemSliding_new))))
       = None"
  using auto_disable_timer [of True "startSliding 100 ItemSliding_new" 600 599 50 12 False]
    auto_disable_timer [of True "startSliding 100 ItemSliding_new" 1000 599 50 12 False]
  by (simp add: close_def startSliding_def ItemSliding_new_def setState_def
      setOpenAmount_def Let_def)

text \<open>
  The claim as stated fails for an update to 0: the item is enabled and closed at time
  0, closed again at 300 ms, which is an open-amount update before the 600 ms have
  elapsed, and 600 ms later the state is Disabled all the same.
\<close>

theorem later_zero_update_still_disables:
  "state (close (advance 300 (close (startSliding 100 ItemSliding_new)))) = 4
   \<and> state (advance 600 (close (advance 300 (close (startSliding 100 ItemSliding_new)))))
       = 2"
  by (simp add: close_def startSliding_def ItemSliding_new_def setState_def
      setOpenAmount_def advance_def Let_def)


section \<open>Properties of ScrollView\<close>

text \<open>
  C9. In synthetic (js) mode \<^verbatim>\<open>getLeft\<close> returns 0 in every state, so also after any
  \<^verbatim>\<open>setLeft\<close>; \<^verbatim>\<open>setLeft\<close> still records the value in \<^verbatim>\<open>_l\<close> and writes the transform. A
  value other than 0 comes out of \<^verbatim>\<open>getLeft\<close> only in native mode, where it is the
  element's \<^verbatim>\<open>scrollLeft\<close>.
\<close>

theorem getLeft_js_zero:
  "(sv_js s \<longrightarrow> getLeft s = Inr (Fin 0, s))
   \<and> (sv_js s \<and> sv_el s = Some e \<longrightarrow>
        setLeft left s =
          Inr (s\<lparr>sv_l := left,
                 sv_el := Some (e\<lparr>styleTransform :=
                   Translate3d (js_mul left (Fin (- 1))) (js_mul (sv_t s) (Fin (- 1)))\<rparr>)\<rparr>))
   \<and> (sv_js s \<and> setLeft left s = Inr s' \<longrightarrow>
        sv_l s' = left \<and> sv_js s' \<and> getLeft s' = Inr (Fin 0, s'))
   \<and> (getLeft s = Inr (v, s'') \<and> v \<noteq> Fin 0 \<longrightarrow> \<not> sv_js s)
   \<and> (\<not> sv_js s \<and> sv_el s = Some e \<longrightarrow>
        getLeft s = Inr (scrollLeft e, s\<lparr>sv_l := scrollLeft e\<rparr>))"
proof (intro conjI impI)
  assume "sv_js s"
  then show "getLeft s = Inr (Fin 0, s)"
    by (simp add: getLeft_def)
next
  assume "sv_js s \<and> sv_el s = Some e"
  then show "setLeft left s =
          Inr (s\<lparr>sv_l := left,
                 sv_el := Some (e\<lparr>styleTransform :=
                   Translate3d (js_mul left (Fin (- 1))) (js_mul (sv_t s) (Fin (- 1)))\<rparr>)\<rparr>)"
    by (simp add: setLeft_def Let_def)
next
  assume js: "sv_js s \<and> setLeft left s = Inr s'"
  then obtain e where e: "sv_el s = Some e"
    by (cases "sv_el s") (simp_all add: setLeft_def Let_def)
  with js have s': "s' = s\<lparr>sv_l := left,
                 sv_el := Some (e\<lparr>styleTransform :=
                   Translate3d (js_mul left (Fin (- 1))) (js_mul (sv_t s) (Fin (- 1)))\<rparr>)\<rparr>"
    by (auto simp: setLeft_def Let_def)
  show "sv_l s' = left"
    by (simp add: s')
  show "sv_js s'"
    using js by (simp add: s')
  then show "getLeft s' = Inr (Fin 0, s')"
    by (simp add: getLeft_def)
next
  assume "getLeft s = Inr (v, s'') \<and> v \<noteq> Fin 0"
  then show "\<not> sv_js s"
    by (auto simp: getLeft_def)
next
  assume "\<not> sv_js s \<and> sv_el s = Some e"
  then show "getLeft s = Inr (scrollLeft e, s\<lparr>sv_l := scrollLeft e\<rparr>)"
    by (simp add: getLeft_def)
qed

theorem getLeft_js_zero_witness:
  "getLeft \<lparr>sv_js = True,
            sv_el = Some \<lparr>scrollTop = Fin 0, scrollLeft = Fin 0,
                          styleTransform = Translate3d (Fin (- 7)) (Fin (- 3))\<rparr>,
            sv_t = Fin 3, sv_l = Fin 7, isScrolling = False\<rparr>
     = Inr (Fin 0, \<lparr>sv_js = True,
            sv_el = Some \<lparr>scrollTop = Fin 0, scrollLeft = Fin 0,
                          styleTransform = Translate3d (Fin (- 7)) (Fin (- 3))\<rparr>,
            sv_t = Fin 3, sv_l = Fin 7, isScrolling = False\<rparr>)
   \<and> setLeft (Fin 7) \<lparr>sv_js = True,
            sv_el = Some \<lparr>scrollTop = Fin 0, scrollLeft = Fin 0,
                          styleTransform = NoTransform\<rparr>,
            sv_t = Fin 3, sv_l = Fin 0, isScrolling = False\<rparr>
     = Inr \<lparr>sv_js = True,
            sv_el = Some \<lparr>scrollTop = Fin 0, scrollLeft = Fin 0,
                          styleTransform = Translate3d (Fin (- 7)) (Fin (- 3))\<rparr>,
            sv_t = Fin 3, sv_l = Fin 7, isScrolling = False\<rparr>"
  using getLeft_js_zero [of "\<lparr>sv_js = True,
            sv_el = Some \<lparr>scrollTop = Fin 0, scrollLeft = Fin 0,
                          styleTransform = NoTransform\<rparr>,
            sv_t = Fin 3, sv_l = Fin 0, isScrolling = False\<rparr>"
          "\<lparr>scrollTop = Fin 0, scrollLeft = Fin 0, styleTransform = NoTransform\<rparr>"
          "Fin 7"
          "\<lparr>sv_js = True,
            sv_el = Some \<lparr>scrollTop = Fin 0, scrollLeft = Fin 0,
                          styleTransform = Translate3d (Fin (- 7)) (Fin (- 3))\<rparr>,
            sv_t = Fin 3, sv_l = Fin 7, isScrolling = False\<rparr>"]
  by simp

lemma step_missing_element:
  "sv_el sv = None \<Longrightarrow>
     step timeStamp (sv, a) =
       Inl (TypeError, (sv\<lparr>isScrolling := False\<rparr>, a\<lparr>attempts := attempts a + 1\<rparr>))"
  by (simp add: step_def Let_def)

lemma step_budget_exceeded:
  "sv_el sv = Some e \<Longrightarrow> maxAttempts a < real (attempts a + 1) \<Longrightarrow>
     step timeStamp (sv, a) =
       Inr (sv\<lparr>isScrolling := False, sv_el := Some (e\<lparr>styleTransform := NoTransform\<rparr>)\<rparr>,
            a\<lparr>attempts := attempts a + 1, doneCalls := doneCalls a + 1\<rparr>)"
  by (simp add: step_def Let_def)

lemma step_stopped:
  "sv_el sv = Some e \<Longrightarrow> \<not> isScrolling sv \<Longrightarrow>
     step timeStamp (sv, a) =
       Inr (sv\<lparr>isScrolling := False, sv_el := Some (e\<lparr>styleTransform := NoTransform\<rparr>)\<rparr>,
            a\<lparr>attempts := attempts a + 1, doneCalls := doneCalls a + 1\<rparr>)"
  by (simp add: step_def Let_def)

text \<open>
  C4. \<^verbatim>\<open>scrollTo(0, 100, 300)\<close> on a native view at offset 0, two frames, then
  \<^verbatim>\<open>destroy()\<close>, then the next frame: \<^verbatim>\<open>step\<close> enters its halting branch because the
  element is missing and throws on \<^verbatim>\<open>self._el.style\<close>. \<^verbatim>\<open>done\<close> has not been called and
  no frame is queued, so it never will be.
\<close>

theorem scrollTo_destroy_throws:
  "scrollTo 0 100 300
     \<lparr>sv_js = False,
      sv_el = Some \<lparr>scrollTop = Fin 0, scrollLeft = Fin 0, styleTransform = NoTransform\<rparr>,
      sv_t = Fin 0, sv_l = Fin 0, isScrolling = False\<rparr>
     = (\<lparr>sv_js = False,
         sv_el = Some \<lparr>scrollTop = Fin 0, scrollLeft = Fin 0, styleTransform = NoTransform\<rparr>,
         sv_t = Fin 0, sv_l = Fin 0, isScrolling = True\<rparr>,
        Animating \<lparr>toX = 0, toY = 100, duration = 300, fromX = Fin 0, fromY = Fin 0,
                   maxAttempts = 475 / 4, startTime = None, attempts = 0, doneCalls = 0,
                   framePending = True\<rparr>)
   \<and> run_frames [Frame 0, Frame 16, Destroy, Frame 32]
       (\<lparr>sv_js = False,
         sv_el = Some \<lparr>scrollTop = Fin 0, scrollLeft = Fin 0, styleTransform = NoTransform\<rparr>,
         sv_t = Fin 0, sv_l = Fin 0, isScrolling = True\<rparr>,
        \<lparr>toX = 0, toY = 100, duration = 300, fromX = Fin 0, fromY = Fin 0,
         maxAttempts = 475 / 4, startTime = None, attempts = 0, doneCalls = 0,
         framePending = True\<rparr>)
     = Inl (TypeError,
            \<lparr>sv_js = False, sv_el = None, sv_t = Fin (255856 / 16875), sv_l = Fin 0,
             isScrolling = False\<rparr>,
            \<lparr>toX = 0, toY = 100, duration = 300, fromX = Fin 0, fromY = Fin 0,
             maxAttempts = 475 / 4, startTime = Some 0, attempts = 3, doneCalls = 0,
             framePending = False\<rparr>)"
  by (simp add: scrollTo_def first_frame_def step_def setTop_def destroy_def stop_def
      js_sub_def Let_def)

section \<open>Arithmetic edge cases\<close>

lemma zero_duration_first_frame:
  assumes "sv_el sv = Some e"
  shows "\<exists>a0 sv' a'.
           scrollTo x y 0 sv = (sv\<lparr>isScrolling := True\<rparr>, Animating a0)
           \<and> run_frames [Frame timeStamp] (sv\<lparr>isScrolling := True\<rparr>, a0) = Inr (sv', a')
           \<and> doneCalls a' = 1 \<and> \<not> framePending a' \<and> \<not> isScrolling sv'
           \<and> (js_strict_neq (scrollTop e) (Fin y) \<longrightarrow> sv_t sv' = NaN)
           \<and> (js_strict_neq (scrollLeft e) (Fin x) \<longrightarrow> sv_l sv' = NaN)"
  using assms
  by (auto simp: scrollTo_def first_frame_def step_def setTop_def setLeft_def js_sub_def
      Let_def)

text \<open>
  C8, as amended. Neither division is guarded. \<^verbatim>\<open>getSlidingPercent\<close> returns 0 for an open
  amount of 0 and otherwise divides the open amount by the panel width of its side, so
  that a zero width gives plus or minus infinity. \<^verbatim>\<open>scrollTo\<close> with a duration of 0
  divides by the duration: on the first frame the time fraction \<open>0 / 0\<close> is NaN, NaN is
  written as the offset on each axis whose target differs from the start, and the
  animation ends on that frame, \<^verbatim>\<open>done\<close> being called once.
\<close>

theorem division_not_guarded:
  "(openAmount s = 0 \<longrightarrow> getSlidingPercent s = Fin 0)
   \<and> (0 < openAmount s \<and> optsWidthRightSide s \<noteq> 0 \<longrightarrow>
        getSlidingPercent s = Fin (openAmount s / optsWidthRightSide s))
   \<and> (openAmount s < 0 \<and> optsWidthLeftSide s \<noteq> 0 \<longrightarrow>
        getSlidingPercent s = Fin (openAmount s / optsWidthLeftSide s))
   \<and> (0 < openAmount s \<and> optsWidthRightSide s = 0 \<longrightarrow> getSlidingPercent s = PInf)
   \<and> (openAmount s < 0 \<and> optsWidthLeftSide s = 0 \<longrightarrow> getSlidingPercent s = NInf)
   \<and> (sv_el sv = Some e \<longrightarrow>
        (\<exists>a0 sv' a'.
           scrollTo x y 0 sv = (sv\<lparr>isScrolling := True\<rparr>, Animating a0)
           \<and> run_frames [Frame timeStamp] (sv\<lparr>isScrolling := True\<rparr>, a0) = Inr (sv', a')
           \<and> doneCalls a' = 1 \<and> \<not> framePending a' \<and> \<not> isScrolling sv'
           \<and> (js_strict_neq (scrollTop e) (Fin y) \<longrightarrow> sv_t sv' = NaN)
           \<and> (js_strict_neq (scrollLeft e) (Fin x) \<longrightarrow> sv_l sv' = NaN)))"
proof (intro conjI impI)
  assume "sv_el sv = Some e"
  then show "\<exists>a0 sv' a'.
           scrollTo x y 0 sv = (sv\<lparr>isScrolling := True\<rparr>, Animating a0)
           \<and> run_frames [Frame timeStamp] (sv\<lparr>isScrolling := True\<rparr>, a0) = Inr (sv', a')
           \<and> doneCalls a' = 1 \<and> \<not> framePending a' \<and> \<not> isScrolling sv'
           \<and> (js_strict_neq (scrollTop e) (Fin y) \<longrightarrow> sv_t sv' = NaN)
           \<and> (js_strict_neq (scrollLeft e) (Fin x) \<longrightarrow> sv_l sv' = NaN)"
    by (rule zero_duration_first_frame)
qed (simp_all add: getSlidingPercent_def)

theorem division_not_guarded_witness:
  "getSlidingPercent (ItemSliding_new\<lparr>hasRightOptions := True, sides := 2,
       optsDirty := False, state := 8, openAmount := 11 / 2\<rparr>) = PInf
   \<and> getSlidingPercent (ItemSliding_new\<lparr>hasRightOptions := True, sides := 2,
       optsDirty := False, state := 8, openAmount := 0\<rparr>) = Fin 0
   \<and> (\<exists>sv' a'. run_frames [Frame 5]
         (\<lparr>sv_js = False,
           sv_el = Some \<lparr>scrollTop = Fin 0, scrollLeft = Fin 0,
                         styleTransform = NoTransform\<rparr>,
           sv_t = Fin 0, sv_l = Fin 0, isScrolling = True\<rparr>,
          \<lparr>toX = 0, toY = 100, duration = 0, fromX = Fin 0, fromY = Fin 0,
           maxAttempts = 100, startTime = None, attempts = 0, doneCalls = 0,
           framePending = True\<rparr>) = Inr (sv', a') \<and> doneCalls a' = 1 \<and> sv_t sv' = NaN)"
  using division_not_guarded [of "ItemSliding_new\<lparr>hasRightOptions := True, sides := 2,
       optsDirty := False, state := 8, openAmount := 11 / 2\<rparr>"
       "\<lparr>sv_js = False,
           sv_el = Some \<lparr>scrollTop = Fin 0, scrollLeft = Fin 0,
                         styleTransform = NoTransform\<rparr>,
           sv_t = Fin 0, sv_l = Fin 0, isScrolling = False\<rparr>"
       "\<lparr>scrollTop = Fin 0, scrollLeft = Fin 0, styleTransform = NoTransform\<rparr>"
       0 100 5]
    division_not_guarded [of "ItemSliding_new\<lparr>hasRightOptions := True, sides := 2,
       optsDirty := False, state := 8, openAmount := 0\<rparr>"]
  by (auto simp: ItemSliding_new_def scrollTo_def)

text \<open>
  The claim as stated fails on an item whose only options element (no \<^verbatim>\<open>side\<close> input,
  hence on the right) has a layout width of 0: a sliding session starts at 100, the
  first move finds the widths stale and queues their measurement, the frame measures 0,
  and the next move drags the item open by 10 px. The stored open amount is 5.5 and the
  sliding percentage is infinite.
\<close>

theorem getSlidingPercent_zero_width_infinite:
  "openAmount (fst (moveSliding 90 (calculateOptsWidth_frame 0 0 (fst (moveSliding 95
      (startSliding 100 (setItemOptions [None] ItemSliding_new))))))) = 11 / 2
   \<and> optsWidthRightSide (fst (moveSliding 90 (calculateOptsWidth_frame 0 0 (fst
      (moveSliding 95 (startSliding 100 (setItemOptions [None] ItemSliding_new))))))) = 0
   \<and> getSlidingPercent (fst (moveSliding 90 (calculateOptsWidth_frame 0 0 (fst (moveSliding 95
      (startSliding 100 (setItemOptions [None] ItemSliding_new))))))) = PInf
   \<and> \<not> js_finite (getSlidingPercent (fst (moveSliding 90 (calculateOptsWidth_frame 0 0
      (fst (moveSliding 95 (startSliding 100 (setItemOptions [None] ItemSliding_new))))))))"
  by (simp add: ItemSliding_new_def setItemOptions_def getSides_def startSliding_def
      moveSliding_def calculateOptsWidth_def calculateOptsWidth_frame_def setOpenAmount_def
      setState_def getSlidingPercent_def ELASTIC_FACTOR_def SWIPE_MARGIN_def Let_def)

section \<open>Properties of the deceleration loop\<close>












section \<open>Properties of PanGesture\<close>

lemma deliver_moves_stopped:
  "pointerEvents s \<noteq> Some True \<Longrightarrow> deliver_moves evs s = Inr s"
  by (induction evs) (simp_all add: deliver_move_def)

lemma pointerMove_no_pan:
  assumes "\<not> captured s" "detector s" "\<not> (detect_answer ev \<and> pan_answer ev \<noteq> 0)"
  shows "pointerMove ev s =
           Inr (s\<lparr>calls := calls s @ (if detect_answer ev then [DetectorDetect, DetectorPan]
                                        else [DetectorDetect])\<rparr>)"
  using assms by (auto simp: pointerMove_def log_call_def Let_def)

lemma pointerMove_capture_granted:
  assumes "\<not> captured s" "detector s" "gestute s" "detect_answer ev" "pan_answer ev \<noteq> 0"
    "capture_answer ev"
  shows "pointerMove ev s =
           Inr (s\<lparr>calls := calls s @ [DetectorDetect, DetectorPan, GestureCapture, OnDragStart],
                  captured := True\<rparr>)"
  using assms by (simp add: pointerMove_def tryToCapture_def log_call_def Let_def)

lemma pointerMove_no_delegate:
  assumes "\<not> captured s" "detector s" "\<not> gestute s" "detect_answer ev" "pan_answer ev \<noteq> 0"
  shows "pointerMove ev s =
           Inr (s\<lparr>calls := calls s @ [DetectorDetect, DetectorPan, OnDragStart],
                  captured := True\<rparr>)"
  using assms by (simp add: pointerMove_def tryToCapture_def log_call_def Let_def)

lemma pointerMove_capture_refused:
  assumes "\<not> captured s" "detector s" "gestute s" "detect_answer ev" "pan_answer ev \<noteq> 0"
    "\<not> capture_answer ev" "pointerEvents s = Some b"
  shows "pointerMove ev s =
           Inr (s\<lparr>calls := calls s @ [DetectorDetect, DetectorPan, GestureCapture,
                                       GestureRelease, PointerEventsStop, NotCaptured],
                  started := False, captured := False, pointerEvents := Some False\<rparr>)"
  using assms
  by (simp add: pointerMove_def tryToCapture_def abort_def log_call_def Let_def)

text \<open>
  C5. Take a move that reaches a started, not yet captured controller with a
  recognizer. As long as the recognizer reports no pan, no capture is attempted and the
  session goes on. Once it reports a non-zero pan, capture is attempted once: the
  arbitration is asked exactly once when a gesture delegate is configured (without one
  there is nobody to ask and the capture succeeds). When the capture is granted the
  session is captured. When it is refused the session is aborted: \<^verbatim>\<open>started\<close> and
  \<^verbatim>\<open>captured\<close> are false, the delegate is released, the pointer events are stopped and
  \<^verbatim>\<open>notCaptured\<close> is called; whatever moves the pointer source is given afterwards leave
  the controller as it is, so no further capture is attempted in that session.
\<close>

theorem pointerMove_single_capture_attempt:
  assumes "started s" and "\<not> captured s" and "detector s"
    and "pointerEvents s = Some True"
  shows "(\<not> (detect_answer ev \<and> pan_answer ev \<noteq> 0) \<longrightarrow>
            deliver_move ev s =
              Inr (s\<lparr>calls := calls s @ (if detect_answer ev
                                           then [DetectorDetect, DetectorPan]
                                           else [DetectorDetect])\<rparr>))
         \<and> (detect_answer ev \<and> pan_answer ev \<noteq> 0 \<and> gestute s \<and> capture_answer ev \<longrightarrow>
              deliver_move ev s =
                Inr (s\<lparr>calls := calls s @ [DetectorDetect, DetectorPan, GestureCapture,
                                            OnDragStart],
                       captured := True\<rparr>))
         \<and> (detect_answer ev \<and> pan_answer ev \<noteq> 0 \<and> \<not> gestute s \<longrightarrow>
              deliver_move ev s =
                Inr (s\<lparr>calls := calls s @ [DetectorDetect, DetectorPan, OnDragStart],
                       captured := True\<rparr>))
         \<and> (detect_answer ev \<and> pan_answer ev \<noteq> 0 \<and> gestute s \<and> \<not> capture_answer ev \<longrightarrow>
              deliver_move ev s =
                Inr (s\<lparr>calls := calls s @ [DetectorDetect, DetectorPan, GestureCapture,
                                            GestureRelease, PointerEventsStop, NotCaptured],
                       started := False, captured := False, pointerEvents := Some False\<rparr>)
              \<and> deliver_moves evs
                   (s\<lparr>calls := calls s @ [DetectorDetect, DetectorPan, GestureCapture,
                                          GestureRelease, PointerEventsStop, NotCaptured],
                      started := False, captured := False, pointerEvents := Some False\<rparr>)
                 = Inr (s\<lparr>calls := calls s @ [DetectorDetect, DetectorPan, GestureCapture,
                                          GestureRelease, PointerEventsStop, NotCaptured],
                      started := False, captured := False, pointerEvents := Some False\<rparr>))"
proof (intro conjI impI)
  assume "\<not> (detect_answer ev \<and> pan_answer ev \<noteq> 0)"
  then show "deliver_move ev s =
              Inr (s\<lparr>calls := calls s @ (if detect_answer ev
                                           then [DetectorDetect, DetectorPan]
                                           else [DetectorDetect])\<rparr>)"
    using assms pointerMove_no_pan [of s ev] by (simp add: deliver_move_def)
next
  assume "detect_answer ev \<and> pan_answer ev \<noteq> 0 \<and> gestute s \<and> capture_answer ev"
  then show "deliver_move ev s =
              Inr (s\<lparr>calls := calls s @ [DetectorDetect, DetectorPan, GestureCapture,
                                          OnDragStart],
                     captured := True\<rparr>)"
    using assms by (simp add: deliver_move_def pointerMove_capture_granted)
next
  assume "detect_answer ev \<and> pan_answer ev \<noteq> 0 \<and> \<not> gestute s"
  then show "deliver_move ev s =
              Inr (s\<lparr>calls := calls s @ [DetectorDetect, DetectorPan, OnDragStart],
                     captured := True\<rparr>)"
    using assms by (simp add: deliver_move_def pointerMove_no_delegate)
next
  assume "detect_answer ev \<and> pan_answer ev \<noteq> 0 \<and> gestute s \<and> \<not> capture_answer ev"
  then show "deliver_move ev s =
                Inr (s\<lparr>calls := calls s @ [DetectorDetect, DetectorPan, GestureCapture,
                                            GestureRelease, PointerEventsStop, NotCaptured],
                       started := False, captured := False, pointerEvents := Some False\<rparr>)"
    using assms by (simp add: deliver_move_def pointerMove_capture_refused)
next
  show "deliver_moves evs
                   (s\<lparr>calls := calls s @ [DetectorDetect, DetectorPan, GestureCapture,
                                          GestureRelease, PointerEventsStop, NotCaptured],
                      started := False, captured := False, pointerEvents := Some False\<rparr>)
                 = Inr (s\<lparr>calls := calls s @ [DetectorDetect, DetectorPan, GestureCapture,
                                          GestureRelease, PointerEventsStop, NotCaptured],
                      started := False, captured := False, pointerEvents := Some False\<rparr>)"
    by (rule deliver_moves_stopped) simp
qed

theorem pointerMove_single_capture_attempt_witness:
  "deliver_move
     \<lparr>canStart_answer = True, start_answer = True, capture_answer = False,
      detect_answer = True, pan_answer = 1\<rparr>
     \<lparr>started = True, captured = False, isListening = True, gestute = True,
      detector = True, debouncer = True, pointerEvents = Some True,
      calls = [CanStart, GestureRelease, GestureStart, DetectorStart]\<rparr>
   = Inr \<lparr>started = False, captured = False, isListening = True, gestute = True,
      detector = True, debouncer = True, pointerEvents = Some False,
      calls = [CanStart, GestureRelease, GestureStart, DetectorStart, DetectorDetect,
               DetectorPan, GestureCapture, GestureRelease, PointerEventsStop,
               NotCaptured]\<rparr>
   \<and> deliver_moves
       [\<lparr>canStart_answer = True, start_answer = True, capture_answer = True,
         detect_answer = True, pan_answer = 1\<rparr>]
       \<lparr>started = False, captured = False, isListening = True, gestute = True,
        detector = True, debouncer = True, pointerEvents = Some False,
        calls = [CanStart, GestureRelease, GestureStart, DetectorStart, DetectorDetect,
                 DetectorPan, GestureCapture, GestureRelease, PointerEventsStop,
                 NotCaptured]\<rparr>
     = Inr \<lparr>started = False, captured = False, isListening = True, gestute = True,
        detector = True, debouncer = True, pointerEvents = Some False,
        calls = [CanStart, GestureRelease, GestureStart, DetectorStart, DetectorDetect,
                 DetectorPan, GestureCapture, GestureRelease, PointerEventsStop,
                 NotCaptured]\<rparr>"
  using pointerMove_single_capture_attempt
    [of "\<lparr>started = True, captured = False, isListening = True, gestute = True,
          detector = True, debouncer = True, pointerEvents = Some True,
          calls = [CanStart, GestureRelease, GestureStart, DetectorStart]\<rparr>"
        "\<lparr>canStart_answer = True, start_answer = True, capture_answer = False,
          detect_answer = True, pan_answer = 1\<rparr>"
        "[\<lparr>canStart_answer = True, start_answer = True, capture_answer = True,
           detect_answer = True, pan_answer = 1\<rparr>]"]
  by simp

lemma pointerDown_started: "started s \<Longrightarrow> pointerDown ev s = Inr (None, s)"
  by (simp add: pointerDown_def)

lemma pointerDown_cannot_start:
  "\<not> started s \<Longrightarrow> \<not> canStart_answer ev
     \<Longrightarrow> pointerDown ev s = Inr (Some False, s\<lparr>calls := calls s @ [CanStart]\<rparr>)"
  by (simp add: pointerDown_def log_call_def Let_def)

lemma pointerDown_start_refused:
  "\<not> started s \<Longrightarrow> canStart_answer ev \<Longrightarrow> gestute s \<Longrightarrow> \<not> start_answer ev
     \<Longrightarrow> pointerDown ev s =
           Inr (Some False, s\<lparr>calls := calls s @ [CanStart, GestureRelease, GestureStart]\<rparr>)"
  by (simp add: pointerDown_def log_call_def Let_def)

lemma pointerDown_with_detector:
  "\<not> started s \<Longrightarrow> canStart_answer ev \<Longrightarrow> gestute s \<longrightarrow> start_answer ev \<Longrightarrow> detector s
     \<Longrightarrow> pointerDown ev s =
           Inr (Some True,
                s\<lparr>calls := calls s @ [CanStart]
                            @ (if gestute s then [GestureRelease, GestureStart] else [])
                            @ [DetectorStart],
                  started := True, captured := False\<rparr>)"
  by (simp add: pointerDown_def log_call_def Let_def)

lemma pointerDown_immediate_capture:
  "\<not> started s \<Longrightarrow> canStart_answer ev \<Longrightarrow> gestute s \<longrightarrow> start_answer ev \<Longrightarrow> \<not> detector s
     \<Longrightarrow> gestute s \<longrightarrow> capture_answer ev
     \<Longrightarrow> pointerDown ev s =
           Inr (Some True,
                s\<lparr>calls := calls s @ [CanStart]
                            @ (if gestute s then [GestureRelease, GestureStart, GestureCapture]
                               else [])
                            @ [OnDragStart],
                  started := True, captured := True\<rparr>)"
  by (simp add: pointerDown_def tryToCapture_def log_call_def Let_def)

lemma pointerDown_immediate_capture_refused:
  "\<not> started s \<Longrightarrow> canStart_answer ev \<Longrightarrow> gestute s \<Longrightarrow> start_answer ev \<Longrightarrow> \<not> detector s
     \<Longrightarrow> \<not> capture_answer ev
     \<Longrightarrow> pointerDown ev s =
           Inr (Some False,
                s\<lparr>calls := calls s @ [CanStart, GestureRelease, GestureStart, GestureCapture,
                                       GestureRelease],
                  started := False, captured := False\<rparr>)"
  by (simp add: pointerDown_def tryToCapture_def log_call_def Let_def)

text \<open>
  C6, as amended. \<^verbatim>\<open>pointerDown\<close> does nothing when a session is already started. When
  \<^verbatim>\<open>canStart\<close> returns false, or when a configured gesture delegate refuses to start, it
  returns \<^verbatim>\<open>false\<close> and no session begins. Otherwise a session starts: with a detector
  (threshold above 0) the detector is started and the session is left uncaptured;
  without one (threshold at most 0) capture is attempted at once, and a refused capture
  undoes the session, releases the delegate and returns \<^verbatim>\<open>false\<close>.
\<close>

theorem pointerDown_session_start:
  "detector (PanGesture_new threshold hasGesture hasDomController) = (0 < threshold)
   \<and> (started s \<longrightarrow> pointerDown ev s = Inr (None, s))
   \<and> (\<not> started s \<and> \<not> canStart_answer ev \<longrightarrow>
        pointerDown ev s = Inr (Some False, s\<lparr>calls := calls s @ [CanStart]\<rparr>))
   \<and> (\<not> started s \<and> canStart_answer ev \<and> gestute s \<and> \<not> start_answer ev \<longrightarrow>
        pointerDown ev s =
          Inr (Some False, s\<lparr>calls := calls s @ [CanStart, GestureRelease, GestureStart]\<rparr>))
   \<and> (\<not> started s \<and> canStart_answer ev \<and> (gestute s \<longrightarrow> start_answer ev) \<and> detector s \<longrightarrow>
        pointerDown ev s =
          Inr (Some True,
               s\<lparr>calls := calls s @ [CanStart]
                           @ (if gestute s then [GestureRelease, GestureStart] else [])
                           @ [DetectorStart],
                 started := True, captured := False\<rparr>))
   \<and> (\<not> started s \<and> canStart_answer ev \<and> (gestute s \<longrightarrow> start_answer ev) \<and> \<not> detector s
        \<and> (gestute s \<longrightarrow> capture_answer ev) \<longrightarrow>
        pointerDown ev s =
          Inr (Some True,
               s\<lparr>calls := calls s @ [CanStart]
                           @ (if gestute s then [GestureRelease, GestureStart, GestureCapture]
                              else [])
                           @ [OnDragStart],
                 started := True, captured := True\<rparr>))
   \<and> (\<not> started s \<and> canStart_answer ev \<and> gestute s \<and> start_answer ev \<and> \<not> detector s
        \<and> \<not> capture_answer ev \<longrightarrow>
        pointerDown ev s =
          Inr (Some False,
               s\<lparr>calls := calls s @ [CanStart, GestureRelease, GestureStart, GestureCapture,
                                      GestureRelease],
                 started := False, captured := False\<rparr>))"
  using pointerDown_started [of s ev] pointerDown_cannot_start [of s ev]
    pointerDown_start_refused [of s ev] pointerDown_with_detector [of s ev]
    pointerDown_immediate_capture [of s ev] pointerDown_immediate_capture_refused [of s ev]
  by (simp add: PanGesture_new_def)

theorem pointerDown_session_start_witness:
  "pointerDown
     \<lparr>canStart_answer = True, start_answer = True, capture_answer = False,
      detect_answer = False, pan_answer = 0\<rparr>
     (listen (PanGesture_new 0 True True))
   = Inr (Some False,
      \<lparr>started = False, captured = False, isListening = True, gestute = True,
       detector = False, debouncer = True, pointerEvents = Some False,
       calls = [CanStart, GestureRelease, GestureStart, GestureCapture, GestureRelease]\<rparr>)
   \<and> pointerDown
     \<lparr>canStart_answer = True, start_answer = True, capture_answer = False,
      detect_answer = False, pan_answer = 0\<rparr>
     (listen (PanGesture_new 20 True True))
   = Inr (Some True,
      \<lparr>started = True, captured = False, isListening = True, gestute = True,
       detector = True, debouncer = True, pointerEvents = Some False,
       calls = [CanStart, GestureRelease, GestureStart, DetectorStart]\<rparr>)"
  using pointerDown_session_start
    [of 0 True True "listen (PanGesture_new 0 True True)"
        "\<lparr>canStart_answer = True, start_answer = True, capture_answer = False,
          detect_answer = False, pan_answer = 0\<rparr>"]
    pointerDown_session_start
    [of 20 True True "listen (PanGesture_new 20 True True)"
        "\<lparr>canStart_answer = True, start_answer = True, capture_answer = False,
          detect_answer = False, pan_answer = 0\<rparr>"]
  by (simp add: listen_def PanGesture_new_def)

text \<open>
  The claim as stated fails when the gesture delegate refuses to start: \<^verbatim>\<open>canStart\<close>
  returns true and no session was started, yet \<^verbatim>\<open>pointerDown\<close> returns \<^verbatim>\<open>false\<close> and
  \<^verbatim>\<open>started\<close> stays false.
\<close>

theorem pointerDown_delegate_refuses_start:
  "\<not> started (listen (PanGesture_new 20 True True))
   \<and> pointerDown
       \<lparr>canStart_answer = True, start_answer = False, capture_answer = True,
        detect_answer = False, pan_answer = 0\<rparr>
       (listen (PanGesture_new 20 True True))
     = Inr (Some False,
        \<lparr>started = False, captured = False, isListening = True, gestute = True,
         detector = True, debouncer = True, pointerEvents = Some False,
         calls = [CanStart, GestureRelease, GestureStart]\<rparr>)"
  by (simp add: pointerDown_def listen_def PanGesture_new_def log_call_def Let_def)

section \<open>Properties of RadioGroup\<close>

lemma update_loop_hasChecked:
  "update_loop p v True bs = (map (\<lambda>b. b\<lparr>checked := False\<rparr>) bs, [])"
  by (induction bs) (auto simp: Let_def)

lemma update_loop_no_match:
  "\<forall>b \<in> set bs. \<not> p v (btn_value b)
     \<Longrightarrow> update_loop p v h bs = (map (\<lambda>b. b\<lparr>checked := False\<rparr>) bs, [])"
  by (induction bs arbitrary: h) (auto simp: Let_def)

lemma update_loop_first_match:
  assumes "\<forall>b \<in> set pre. \<not> p v (btn_value b)" and "p v (btn_value m)"
  shows "update_loop p v False (pre @ m # post) =
           (map (\<lambda>b. b\<lparr>checked := False\<rparr>) pre @ m\<lparr>checked := True\<rparr>
              # map (\<lambda>b. b\<lparr>checked := False\<rparr>) post, [btn_id m])"
  using assms
  by (induction pre) (auto simp: Let_def update_loop_hasChecked)

lemma filter_checked_cleared:
  "filter checked (map (\<lambda>b. b\<lparr>checked := False\<rparr>) bs) = []"
  by (induction bs) auto

lemma first_match_split:
  "\<exists>b \<in> set btns. p v (btn_value b)
     \<Longrightarrow> \<exists>pre m post. btns = pre @ m # post \<and> p v (btn_value m)
           \<and> (\<forall>b \<in> set pre. \<not> p v (btn_value b))"
  using split_list_first_prop [of btns "\<lambda>b. p v (btn_value b)"] by blast

lemma update_group_first_match_count:
  "(\<forall>b \<in> set pre. \<not> p v (btn_value b)) \<Longrightarrow> p v (btn_value m)
     \<Longrightarrow> length (filter checked (fst (update_group p v (pre @ m # post)))) \<le> 1"
  by (simp add: update_group_def update_loop_first_match filter_checked_cleared)

text \<open>
  C10. After \<^verbatim>\<open>_update\<close> at most one registered button is checked. When the buttons
  are \<open>pre @ m # post\<close> with \<open>m\<close> the first one whose value matches the group's value
  (whatever matches in \<open>post\<close>), exactly \<open>m\<close> ends up checked, every other button is
  unchecked, and \<open>m\<close> is the only button handed to \<^verbatim>\<open>_setActive\<close>.
\<close>
theorem update_group_single_checked:
  "length (filter checked (fst (update_group p v btns))) \<le> 1
   \<and> ((\<forall>b \<in> set pre. \<not> p v (btn_value b)) \<and> p v (btn_value m)
        \<longrightarrow> update_group p v (pre @ m # post) =
              (map (\<lambda>b. b\<lparr>checked := False\<rparr>) pre @ m\<lparr>checked := True\<rparr>
                 # map (\<lambda>b. b\<lparr>checked := False\<rparr>) post, [btn_id m]))"
proof (intro conjI impI)
  show "length (filter checked (fst (update_group p v btns))) \<le> 1"
  proof (cases "\<exists>b \<in> set btns. p v (btn_value b)")
    case False
    then have "update_group p v btns = (map (\<lambda>b. b\<lparr>checked := False\<rparr>) btns, [])"
      unfolding update_group_def by (intro update_loop_no_match) blast
    then show ?thesis
      by (simp add: filter_checked_cleared)
  next
    case True
    from True first_match_split [of btns p v] obtain pre m post where
      "btns = pre @ m # post" "p v (btn_value m)" "\<forall>b \<in> set pre. \<not> p v (btn_value b)"
      by blast
    with update_group_first_match_count [of pre p v m post] show ?thesis
      by blast
  qed
next
  assume "(\<forall>b \<in> set pre. \<not> p v (btn_value b)) \<and> p v (btn_value m)"
  then show "update_group p v (pre @ m # post) =
              (map (\<lambda>b. b\<lparr>checked := False\<rparr>) pre @ m\<lparr>checked := True\<rparr>
                 # map (\<lambda>b. b\<lparr>checked := False\<rparr>) post, [btn_id m])"
    unfolding update_group_def by (intro update_loop_first_match) blast+
qed

theorem update_group_single_checked_witness:
  "length (filter checked (fst (update_group (=) (1::nat)
      [\<lparr>btn_id = ''0-0'', btn_value = 2, checked = True\<rparr>,
       \<lparr>btn_id = ''0-1'', btn_value = 1, checked = False\<rparr>,
       \<lparr>btn_id = ''0-2'', btn_value = 1, checked = True\<rparr>]))) \<le> 1
   \<and> update_group (=) (1::nat)
      [\<lparr>btn_id = ''0-0'', btn_value = 2, checked = True\<rparr>,
       \<lparr>btn_id = ''0-1'', btn_value = 1, checked = False\<rparr>,
       \<lparr>btn_id = ''0-2'', btn_value = 1, checked = True\<rparr>]
      = ([\<lparr>btn_id = ''0-0'', btn_value = 2, checked = False\<rparr>,
          \<lparr>btn_id = ''0-1'', btn_value = 1, checked = True\<rparr>,
          \<lparr>btn_id = ''0-2'', btn_value = 1, checked = False\<rparr>], [''0-1''])"
  using update_group_single_checked
    [of "(=)" "1::nat"
        "[\<lparr>btn_id = ''0-0'', btn_value = 2, checked = True\<rparr>,
          \<lparr>btn_id = ''0-1'', btn_value = 1, checked = False\<rparr>,
          \<lparr>btn_id = ''0-2'', btn_value = 1, checked = True\<rparr>]"
        "[\<lparr>btn_id = ''0-0'', btn_value = 2, checked = True\<rparr>]"
        "\<lparr>btn_id = ''0-1'', btn_value = 1, checked = False\<rparr>"
        "[\<lparr>btn_id = ''0-2'', btn_value = 1, checked = True\<rparr>]"]
  by simp


end
